theory Spec2Isabelle
  imports Main
begin

section \<open>Values, errors and responses\<close>

text \<open>
  A field of a request body or a header is \<open>None\<close> when it is absent and \<open>Some s\<close> when
  it carries the string \<open>s\<close>. The JavaScript test \<^verbatim>\<open>!x\<close> holds for an absent value and
  for the empty string.
\<close>

definition falsy :: "string option \<Rightarrow> bool" where
  "falsy v = (case v of None \<Rightarrow> True | Some s \<Rightarrow> s = [])"

text \<open>
  What a controller hands to \<^verbatim>\<open>next(error)\<close>: an \<^verbatim>\<open>ApiError\<close> with its message and
  status code, or the \<^verbatim>\<open>ReferenceError\<close> raised by reading an identifier that no
  enclosing scope declares.
\<close>

datatype js_error = ApiError string nat | ReferenceError string

text \<open>Failures of \<^verbatim>\<open>jwt.verify\<close>, under the names the library gives them.\<close>

datatype jwt_error = JsonWebTokenError | TokenExpiredError

record user_doc =
  u_id :: string
  u_fullName :: string
  u_email :: string
  u_password :: string
  u_username :: string

text \<open>
  The plain object obtained from a user document by \<^verbatim>\<open>toObject()\<close>. The field
  \<open>o_password\<close> is \<open>None\<close> once \<^verbatim>\<open>delete obj.password\<close> has run.
\<close>

record user_obj =
  o_id :: string
  o_fullName :: string
  o_email :: string
  o_password :: "string option"
  o_username :: string

record post_doc =
  p_id :: string
  p_title :: string
  p_createdBy :: string

record post_obj =
  po_id :: string
  po_title :: string
  po_createdBy :: string

text \<open>The author fields selected by \<^verbatim>\<open>populate("createdBy", "fullName username")\<close>.\<close>

record author =
  a_id :: string
  a_fullName :: string
  a_username :: string

record populated_post =
  pp_id :: string
  pp_title :: string
  pp_createdBy :: "author option"

datatype data =
  NoData
  | UserToken user_obj string
  | PostData post_obj
  | PostList "populated_post list"

text \<open>The uniform envelope \<^verbatim>\<open>res.status(s).json({message, data, success})\<close>.\<close>

record response =
  status :: nat
  message :: string
  payload_data :: data
  success :: bool

text \<open>A controller either sends a response or calls \<^verbatim>\<open>next(error)\<close>.\<close>

datatype outcome = Responded response | NextError js_error

section \<open>The libraries the controllers call\<close>

text \<open>
  \<^verbatim>\<open>bcryptjs\<close>, \<^verbatim>\<open>jsonwebtoken\<close> and \<^verbatim>\<open>mongoose.isValidObjectId\<close> are not part of
  the repository. Their functions are parameters of the model; the salt drawn by
  \<^verbatim>\<open>bcrypt.genSalt()\<close>, the identifier the store gives a new document, the clock
  (in seconds) and \<^verbatim>\<open>APPLICATION_SECRET\<close> are arguments as well.
\<close>

record bcrypt_lib =
  bcrypt_hash :: "string \<Rightarrow> string \<Rightarrow> string"
  bcrypt_compare :: "string \<Rightarrow> string \<Rightarrow> bool"

text \<open>The object \<^verbatim>\<open>{ user: ... }\<close> given to \<^verbatim>\<open>jwt.sign\<close>.\<close>

record sign_payload =
  sp_user :: user_obj

text \<open>
  What \<^verbatim>\<open>jwt.verify\<close> returns. \<open>d_user\<close> is \<open>None\<close> when \<^verbatim>\<open>decoded.user\<close> is
  falsy, that is when the payload has no identity snapshot.
\<close>

record decoded =
  d_user :: "user_obj option"
  d_iat :: nat
  d_exp :: nat

text \<open>
  \<open>jwt_sign payload secret expiresIn now\<close> and \<open>jwt_verify token secret now\<close>, with
  \<open>expiresIn\<close> in seconds.
\<close>

record jwt_lib =
  jwt_sign :: "sign_payload \<Rightarrow> string \<Rightarrow> nat \<Rightarrow> nat \<Rightarrow> string"
  jwt_verify :: "string \<Rightarrow> string \<Rightarrow> nat \<Rightarrow> jwt_error + decoded"

text \<open>The option \<^verbatim>\<open>{ expiresIn: '1d' }\<close>: one day, in seconds.\<close>

definition expiresIn_1d :: nat where
  "expiresIn_1d = 24 * 60 * 60"

section \<open>The stores\<close>

text \<open>
  A collection is the list of its documents in insertion order. \<^verbatim>\<open>findOne(q)\<close> is the
  first document that matches \<open>q\<close>.
\<close>

text \<open>\<^verbatim>\<open>User.findOne({ '$or': [{ email }, { username }] })\<close>\<close>

definition findOne_user :: "string \<Rightarrow> string \<Rightarrow> user_doc list \<Rightarrow> user_doc option" where
  "findOne_user email username users =
     find (\<lambda>u. u_email u = email \<or> u_username u = username) users"

text \<open>\<^verbatim>\<open>Post.findOne({ _id: postId, createdBy: user._id })\<close>\<close>

definition findOne_post :: "string \<Rightarrow> string \<Rightarrow> post_doc list \<Rightarrow> post_doc option" where
  "findOne_post postId userId posts =
     find (\<lambda>p. p_id p = postId \<and> p_createdBy p = userId) posts"

text \<open>\<^verbatim>\<open>doc.save()\<close> of a document read from the store writes it back under its \<^verbatim>\<open>_id\<close>.\<close>

fun save_post :: "post_doc \<Rightarrow> post_doc list \<Rightarrow> post_doc list" where
  "save_post p [] = []"
| "save_post p (q # qs) = (if p_id q = p_id p then p # qs else q # save_post p qs)"

text \<open>\<^verbatim>\<open>doc.delete()\<close> removes the document stored under its \<^verbatim>\<open>_id\<close>.\<close>

fun delete_post :: "post_doc \<Rightarrow> post_doc list \<Rightarrow> post_doc list" where
  "delete_post p [] = []"
| "delete_post p (q # qs) = (if p_id q = p_id p then qs else q # delete_post p qs)"

definition toObject_user :: "user_doc \<Rightarrow> user_obj" where
  "toObject_user d =
     \<lparr>o_id = u_id d, o_fullName = u_fullName d, o_email = u_email d,
      o_password = Some (u_password d), o_username = u_username d\<rparr>"

definition delete_password :: "user_obj \<Rightarrow> user_obj" where
  "delete_password obj = obj\<lparr>o_password := None\<rparr>"

definition toObject_post :: "post_doc \<Rightarrow> post_obj" where
  "toObject_post d = \<lparr>po_id = p_id d, po_title = p_title d, po_createdBy = p_createdBy d\<rparr>"

section \<open>Post controllers\<close>

text \<open>
  Each controller takes the collection and returns it with the outcome. \<open>user\<close> is
  \<^verbatim>\<open>req.user\<close>, the snapshot the auth middleware attached.
\<close>

definition createPost ::
  "string \<Rightarrow> post_doc list \<Rightarrow> user_obj \<Rightarrow> string option \<Rightarrow> post_doc list \<times> outcome" where
  "createPost newId posts user title =
     (case title of
        None \<Rightarrow> (posts, NextError (ApiError ''Required fields are missing!'' 400))
      | Some t \<Rightarrow>
          if t = [] then (posts, NextError (ApiError ''Required fields are missing!'' 400))
          else
            let newPost = \<lparr>p_id = newId, p_title = t, p_createdBy = o_id user\<rparr>
            in (posts @ [newPost],
                Responded \<lparr>status = 201, message = ''Post created successfully!'',
                  payload_data = PostData (toObject_post newPost), success = True\<rparr>))"

definition populate :: "user_doc list \<Rightarrow> post_doc \<Rightarrow> populated_post" where
  "populate users p =
     \<lparr>pp_id = p_id p, pp_title = p_title p,
      pp_createdBy =
        map_option (\<lambda>u. \<lparr>a_id = u_id u, a_fullName = u_fullName u, a_username = u_username u\<rparr>)
          (find (\<lambda>u. u_id u = p_createdBy p) users)\<rparr>"

definition fetchAllPosts :: "user_doc list \<Rightarrow> post_doc list \<Rightarrow> post_doc list \<times> outcome" where
  "fetchAllPosts users posts =
     (posts,
      Responded \<lparr>status = 200, message = ''Posts fetched successfully!'',
        payload_data = PostList (map (populate users) posts), success = True\<rparr>)"

definition updatePost ::
  "(string \<Rightarrow> bool) \<Rightarrow> post_doc list \<Rightarrow> user_obj \<Rightarrow> string option \<Rightarrow> string option
     \<Rightarrow> post_doc list \<times> outcome" where
  "updatePost isValidObjectId posts user title postId =
     (case (title, postId) of
        (Some t, Some i) \<Rightarrow>
          if t = [] \<or> i = [] \<or> \<not> isValidObjectId i
          then (posts, NextError (ApiError ''Required fields are missing'' 400))
          else
            (case findOne_post i (o_id user) posts of
               None \<Rightarrow>
                 (posts, NextError (ApiError (''Post with id: '' @ i @ '' does not exist!'') 404))
             | Some post \<Rightarrow>
                 let post' = post\<lparr>p_title := t\<rparr>
                 in (save_post post' posts,
                     Responded \<lparr>status = 200, message = ''Post updated successfully!'',
                       payload_data = PostData (toObject_post post'), success = True\<rparr>))
      | _ \<Rightarrow> (posts, NextError (ApiError ''Required fields are missing'' 400)))"

definition deletePost ::
  "(string \<Rightarrow> bool) \<Rightarrow> post_doc list \<Rightarrow> user_obj \<Rightarrow> string option
     \<Rightarrow> post_doc list \<times> outcome" where
  "deletePost isValidObjectId posts user postId =
     (case postId of
        None \<Rightarrow> (posts, NextError (ApiError ''Required fields are missing'' 400))
      | Some i \<Rightarrow>
          if i = [] \<or> \<not> isValidObjectId i
          then (posts, NextError (ApiError ''Required fields are missing'' 400))
          else
            (case findOne_post i (o_id user) posts of
               None \<Rightarrow>
                 (posts, NextError (ApiError (''Post with id: '' @ i @ '' does not exist!'') 404))
             | Some post \<Rightarrow>
                 (delete_post post posts,
                  Responded \<lparr>status = 200, message = ''Post deleted successfully!'',
                    payload_data = NoData, success = True\<rparr>)))"

section \<open>Authentication controllers\<close>

record signup_body =
  sb_fullName :: "string option"
  sb_email :: "string option"
  sb_password :: "string option"
  sb_username :: "string option"

record login_body =
  lb_user :: "string option"
  lb_password :: "string option"

text \<open>
  Reading an identifier: the bindings in scope are searched by name, and a name that
  none of them declares raises \<^verbatim>\<open>ReferenceError\<close>.
\<close>

definition lookup_var :: "(string \<times> 'a) list \<Rightarrow> string \<Rightarrow> js_error + 'a" where
  "lookup_var scope x =
     (case map_of scope x of None \<Rightarrow> Inl (ReferenceError x) | Some v \<Rightarrow> Inr v)"

text \<open>
  \<^verbatim>\<open>signupUser\<close>. The payload of the token is written \<^verbatim>\<open>{ user: loggedInUser }\<close>; the
  only binding of the function that holds a user object is \<^verbatim>\<open>newUser\<close>
  (\<^verbatim>\<open>loggedInUser\<close> is a \<^verbatim>\<open>let\<close> of \<^verbatim>\<open>loginUser\<close>'s own block), and the module declares
  \<^verbatim>\<open>bcrypt\<close>, \<^verbatim>\<open>jwt\<close>, \<^verbatim>\<open>User\<close>, \<^verbatim>\<open>ApiError\<close>, \<^verbatim>\<open>APPLICATION_SECRET\<close> and
  \<^verbatim>\<open>authController\<close>.
\<close>

definition signupUser ::
  "bcrypt_lib \<Rightarrow> jwt_lib \<Rightarrow> string \<Rightarrow> nat \<Rightarrow> string \<Rightarrow> string \<Rightarrow> user_doc list \<Rightarrow> signup_body
     \<Rightarrow> user_doc list \<times> outcome" where
  "signupUser B J secret now salt newId users body =
     (case (sb_fullName body, sb_email body, sb_password body, sb_username body) of
        (Some fullName, Some email, Some password, Some username) \<Rightarrow>
          if fullName = [] \<or> email = [] \<or> password = [] \<or> username = []
          then (users, NextError (ApiError ''Required fields are missing'' 400))
          else
            (case findOne_user email username users of
               Some _ \<Rightarrow>
                 (users,
                  NextError (ApiError ''Account with same email or username already exists'' 409))
             | None \<Rightarrow>
                 let hashedPassword = bcrypt_hash B password salt;
                     doc = \<lparr>u_id = newId, u_fullName = fullName, u_email = email,
                            u_password = hashedPassword, u_username = username\<rparr>;
                     users' = users @ [doc];
                     newUser = delete_password (toObject_user doc)
                 in (case lookup_var [(''newUser'', newUser)] ''loggedInUser'' of
                       Inl err \<Rightarrow> (users', NextError err)
                     | Inr loggedInUser \<Rightarrow>
                         (users',
                          Responded \<lparr>status = 201, message = ''User signup successful!'',
                            payload_data =
                              UserToken newUser
                                (jwt_sign J \<lparr>sp_user = loggedInUser\<rparr> secret expiresIn_1d now),
                            success = True\<rparr>)))
      | _ \<Rightarrow> (users, NextError (ApiError ''Required fields are missing'' 400)))"

definition loginUser ::
  "bcrypt_lib \<Rightarrow> jwt_lib \<Rightarrow> string \<Rightarrow> nat \<Rightarrow> user_doc list \<Rightarrow> login_body
     \<Rightarrow> user_doc list \<times> outcome" where
  "loginUser B J secret now users body =
     (case (lb_user body, lb_password body) of
        (Some user, Some password) \<Rightarrow>
          if user = [] \<or> password = []
          then (users, NextError (ApiError ''Required fields are missing'' 400))
          else
            (case findOne_user user user users of
               None \<Rightarrow> (users, NextError (ApiError ''User does not exist!'' 404))
             | Some doc \<Rightarrow>
                 if \<not> bcrypt_compare B password (u_password doc)
                 then (users, NextError (ApiError ''Invalid Password'' 401))
                 else
                   let loggedInUser = delete_password (toObject_user doc)
                   in (users,
                       Responded \<lparr>status = 200, message = ''User login successful!'',
                         payload_data =
                           UserToken loggedInUser
                             (jwt_sign J \<lparr>sp_user = loggedInUser\<rparr> secret expiresIn_1d now),
                         success = True\<rparr>))
      | _ \<Rightarrow> (users, NextError (ApiError ''Required fields are missing'' 400)))"

text \<open>\<^verbatim>\<open>logoutUser\<close>: the cookies cleared and the response.\<close>

definition logoutUser :: "string list \<times> outcome" where
  "logoutUser =
     ([''authToken''],
      Responded \<lparr>status = 200, message = ''User logout successful!'',
        payload_data = NoData, success = True\<rparr>)"

section \<open>Authentication middleware\<close>

record request =
  authorization :: "string option"
  req_user :: "user_obj option"

text \<open>The three \<^verbatim>\<open>throw\<close> sites of the middleware; the error is written to the log.\<close>

datatype auth_failure = NoAuthToken | VerifyFailed jwt_error | UserObjectMissing

text \<open>
  The middleware either rejects (the logged error, the cookies cleared, the response sent)
  or calls \<^verbatim>\<open>next()\<close> on the request it has extended.
\<close>

datatype auth_result = Rejected auth_failure "string list" response | Passed request

definition deny :: "auth_failure \<Rightarrow> auth_result" where
  "deny e =
     Rejected e [''authToken'']
       \<lparr>status = 401, message = ''Access Denied'', payload_data = NoData, success = False\<rparr>"

definition auth :: "jwt_lib \<Rightarrow> string \<Rightarrow> nat \<Rightarrow> request \<Rightarrow> auth_result" where
  "auth J secret now req =
     (case authorization req of
        None \<Rightarrow> deny NoAuthToken
      | Some authToken \<Rightarrow>
          if authToken = [] then deny NoAuthToken
          else
            (case jwt_verify J authToken secret now of
               Inl e \<Rightarrow> deny (VerifyFailed e)
             | Inr decoded \<Rightarrow>
                 (case d_user decoded of
                    None \<Rightarrow> deny UserObjectMissing
                  | Some u \<Rightarrow> Passed (req\<lparr>req_user := Some u\<rparr>))))"

text \<open>What the client sees of a result: the cookies cleared and the response, if any.\<close>

fun visible :: "auth_result \<Rightarrow> (string list \<times> response) option" where
  "visible (Rejected e cs r) = Some (cs, r)"
| "visible (Passed req) = None"

section \<open>Token issuer and verifier\<close>

text \<open>
  Modelled from the spec: the session token of section 3, whose code (the \<^verbatim>\<open>jsonwebtoken\<close>
  package) is not under src/. A token encodes the embedded user snapshot, the issued-at
  time and the expiry; it is signed with a secret.
\<close>

datatype token_repr = Token decoded string

text \<open>
  Modelled from the spec: the token issuer of section 4.2, \<^verbatim>\<open>issue(userSnapshot)\<close>; the
  \<^verbatim>\<open>jsonwebtoken\<close> package behind \<^verbatim>\<open>jwt.sign\<close> is not under src/. The token is a
  signed string that embeds the snapshot and an expiry exactly \<open>expiresIn\<close> seconds after
  issuance. The string encoding \<open>enc\<close> is a parameter: the spec calls the token opaque.
\<close>

definition issue ::
  "(token_repr \<Rightarrow> string) \<Rightarrow> sign_payload \<Rightarrow> string \<Rightarrow> nat \<Rightarrow> nat \<Rightarrow> string" where
  "issue enc payload secret expiresIn now =
     enc (Token \<lparr>d_user = Some (sp_user payload), d_iat = now, d_exp = now + expiresIn\<rparr> secret)"

text \<open>
  Modelled from the spec: the token verifier of section 4.2, \<^verbatim>\<open>verify(token)\<close>; the
  \<^verbatim>\<open>jsonwebtoken\<close> package behind \<^verbatim>\<open>jwt.verify\<close> is not under src/. It fails with
  InvalidToken (\<open>JsonWebTokenError\<close>) if the signature does not match and with Expired
  (\<open>TokenExpiredError\<close>) if the current time exceeds the embedded expiry. The third
  failure of section 4.2, a payload without the identity snapshot, is the test
  \<^verbatim>\<open>!decoded.user\<close> of the middleware.
\<close>

definition verify_token ::
  "(string \<Rightarrow> token_repr option) \<Rightarrow> string \<Rightarrow> string \<Rightarrow> nat \<Rightarrow> jwt_error + decoded" where
  "verify_token dec token secret now =
     (case dec token of
        None \<Rightarrow> Inl JsonWebTokenError
      | Some (Token d key) \<Rightarrow>
          if key \<noteq> secret then Inl JsonWebTokenError
          else if d_exp d < now then Inl TokenExpiredError
          else Inr d)"

text \<open>
  Modelled from the spec: the issuer and the verifier of section 4.2 taken together as the
  library the controllers and the middleware call.
\<close>

definition spec_jwt ::
  "(token_repr \<Rightarrow> string) \<Rightarrow> (string \<Rightarrow> token_repr option) \<Rightarrow> jwt_lib" where
  "spec_jwt enc dec = \<lparr>jwt_sign = issue enc, jwt_verify = verify_token dec\<rparr>"

text \<open>
  Modelled from the spec: a token is a string that encodes its content (section 3). The
  encoding loses nothing, and no token is the empty string.
\<close>

definition lossless ::
  "(token_repr \<Rightarrow> string) \<Rightarrow> (string \<Rightarrow> token_repr option) \<Rightarrow> bool" where
  "lossless enc dec = (\<forall>t. dec (enc t) = Some t \<and> enc t \<noteq> [])"

subsection \<open>A reference encoding\<close>

text \<open>
  An executable encoding that is lossless: a string is written as its length in unary,
  a \<open>0\<close>, and the string itself; a number as the string of that many \<open>1\<close>s.
\<close>

definition put_field :: "string \<Rightarrow> string" where
  "put_field s = replicate (length s) (CHR ''1'') @ CHR ''0'' # s"

definition get_field :: "string \<Rightarrow> (string \<times> string) option" where
  "get_field xs =
     (let n = length (takeWhile (\<lambda>c. c = CHR ''1'') xs)
      in case drop n xs of
           [] \<Rightarrow> None
         | c # r \<Rightarrow> if c = CHR ''0'' \<and> n \<le> length r then Some (take n r, drop n r) else None)"

definition put_user :: "user_obj option \<Rightarrow> string" where
  "put_user v =
     (case v of
        None \<Rightarrow> ''n''
      | Some u \<Rightarrow>
          ''u'' @ put_field (o_id u) @ put_field (o_fullName u) @ put_field (o_email u)
            @ (case o_password u of None \<Rightarrow> ''n'' | Some p \<Rightarrow> ''p'' @ put_field p)
            @ put_field (o_username u))"

definition get_password :: "string \<Rightarrow> (string option \<times> string) option" where
  "get_password xs =
     (case xs of
        [] \<Rightarrow> None
      | c # r \<Rightarrow>
          if c = CHR ''n'' then Some (None, r)
          else if c = CHR ''p'' then map_option (\<lambda>(p, r'). (Some p, r')) (get_field r)
          else None)"

definition get_user :: "string \<Rightarrow> (user_obj option \<times> string) option" where
  "get_user xs =
     (case xs of
        [] \<Rightarrow> None
      | c # r \<Rightarrow>
          if c = CHR ''n'' then Some (None, r)
          else if c = CHR ''u'' then
            Option.bind (get_field r) (\<lambda>(i, r1).
            Option.bind (get_field r1) (\<lambda>(f, r2).
            Option.bind (get_field r2) (\<lambda>(e, r3).
            Option.bind (get_password r3) (\<lambda>(p, r4).
            Option.bind (get_field r4) (\<lambda>(n, r5).
              Some (Some \<lparr>o_id = i, o_fullName = f, o_email = e, o_password = p,
                           o_username = n\<rparr>, r5))))))
          else None)"

definition encode_token :: "token_repr \<Rightarrow> string" where
  "encode_token t =
     (case t of Token d key \<Rightarrow>
        put_user (d_user d) @ put_field (replicate (d_iat d) (CHR ''1''))
          @ put_field (replicate (d_exp d) (CHR ''1'')) @ put_field key)"

definition decode_token :: "string \<Rightarrow> token_repr option" where
  "decode_token xs =
     Option.bind (get_user xs) (\<lambda>(u, r1).
     Option.bind (get_field r1) (\<lambda>(iat, r2).
     Option.bind (get_field r2) (\<lambda>(exp, r3).
     Option.bind (get_field r3) (\<lambda>(key, r4).
       if r4 = [] then Some (Token \<lparr>d_user = u, d_iat = length iat, d_exp = length exp\<rparr> key)
       else None))))"

definition reference_jwt :: jwt_lib where
  "reference_jwt = spec_jwt encode_token decode_token"

text \<open>
  A stand-in for \<^verbatim>\<open>bcryptjs\<close> on which the controllers can be run: the hash is the
  salt followed by the password.
\<close>

definition reference_bcrypt :: bcrypt_lib where
  "reference_bcrypt =
     \<lparr>bcrypt_hash = (\<lambda>password salt. salt @ password),
      bcrypt_compare = (\<lambda>password h. drop (length h - length password) h = password)\<rparr>"

subsection \<open>Sample data\<close>

text \<open>The account of the spec's signup scenario, as the store holds it, and as a snapshot.\<close>

definition john :: user_doc where
  "john = \<lparr>u_id = ''id1'', u_fullName = ''John Doe'', u_email = ''doe.john@example.com'',
           u_password = ''saltjohn.doe.123'', u_username = ''doe.john''\<rparr>"

definition john_obj :: user_obj where
  "john_obj = \<lparr>o_id = ''id1'', o_fullName = ''John Doe'', o_email = ''doe.john@example.com'',
               o_password = None, o_username = ''doe.john''\<rparr>"

definition jane_obj :: user_obj where
  "jane_obj = \<lparr>o_id = ''id2'', o_fullName = ''Jane Roe'', o_email = ''roe.jane@example.com'',
               o_password = None, o_username = ''roe.jane''\<rparr>"

text \<open>A post of John's.\<close>

definition hello :: post_doc where
  "hello = \<lparr>p_id = ''507f1f77bcf86cd799439011'', p_title = ''Hello'', p_createdBy = ''id1''\<rparr>"

text \<open>A post of Jane's.\<close>

definition other :: post_doc where
  "other = \<lparr>p_id = ''507f191e810c19729de860ea'', p_title = ''Hi'', p_createdBy = ''id2''\<rparr>"

text \<open>
  A stand-in for \<^verbatim>\<open>mongoose.isValidObjectId\<close> on which the controllers can be run: it
  accepts the strings of 24 hexadecimal digits.
\<close>

definition reference_isValidObjectId :: "string \<Rightarrow> bool" where
  "reference_isValidObjectId i =
     (length i = 24 \<and> list_all (\<lambda>c. c \<in> set ''0123456789abcdef'') i)"

text \<open>The content of a token for John, and of a token that carries no user.\<close>

definition john_token :: token_repr where
  "john_token = Token \<lparr>d_user = Some john_obj, d_iat = 1000, d_exp = 87400\<rparr> ''secret''"

definition anonymous_token :: token_repr where
  "anonymous_token = Token \<lparr>d_user = None, d_iat = 1000, d_exp = 87400\<rparr> ''secret''"

text \<open>
  A verifier of compact tokens on which the middleware can be run: a compact token has
  no space in it, so a string with a space is rejected as malformed; any other string is
  verified as \<open>reference_jwt\<close> does.
\<close>

definition compact_jwt :: jwt_lib where
  "compact_jwt =
     \<lparr>jwt_sign = jwt_sign reference_jwt,
      jwt_verify =
        (\<lambda>token secret now.
           if CHR '' '' \<in> set token then Inl JsonWebTokenError
           else jwt_verify reference_jwt token secret now)\<rparr>"

text \<open>A user whose fields have no space, and the content of a token for her.\<close>

definition ada_obj :: user_obj where
  "ada_obj = \<lparr>o_id = ''id3'', o_fullName = ''Ada'', o_email = ''ada@example.com'',
              o_password = None, o_username = ''ada''\<rparr>"

definition ada_token :: token_repr where
  "ada_token = Token \<lparr>d_user = Some ada_obj, d_iat = 1000, d_exp = 87400\<rparr> ''secret''"

section \<open>The reference encoding is lossless\<close>

lemma takeWhile_ones:
  "takeWhile (\<lambda>c. c = CHR ''1'') (replicate n (CHR ''1'') @ CHR ''0'' # ys) =
     replicate n (CHR ''1'')"
  by (induction n) simp_all

lemma get_put_field: "get_field (put_field s @ r) = Some (s, r)"
proof -
  have tw: "takeWhile (\<lambda>c. c = CHR ''1'') (put_field s @ r) = replicate (length s) (CHR ''1'')"
    by (simp add: put_field_def takeWhile_ones)
  have dr: "drop (length s) (put_field s @ r) = CHR ''0'' # s @ r"
    by (simp add: put_field_def)
  show ?thesis
    unfolding get_field_def tw Let_def length_replicate dr by simp
qed

lemma get_put_field_end: "get_field (put_field s) = Some (s, [])"
  using get_put_field [of s "[]"] by simp

lemma get_password_put:
  "get_password ((case p of None \<Rightarrow> ''n'' | Some q \<Rightarrow> ''p'' @ put_field q) @ r) = Some (p, r)"
  by (cases p) (simp_all add: get_password_def get_put_field)

lemma get_user_put: "get_user (put_user v @ r) = Some (v, r)"
proof (cases v)
  case None
  then show ?thesis by (simp add: get_user_def put_user_def)
next
  case (Some u)
  then show ?thesis
    by (cases u) (simp add: get_user_def put_user_def get_put_field get_password_put)
qed

lemma decode_encode: "decode_token (encode_token t) = Some t"
proof (cases t)
  case (Token d key)
  then show ?thesis
    by (cases d)
      (simp add: decode_token_def encode_token_def get_user_put get_put_field get_put_field_end)
qed

lemma encode_nonempty: "encode_token t \<noteq> []"
  by (cases t) (simp add: encode_token_def put_user_def put_field_def split: option.splits)

lemma lossless_reference: "lossless encode_token decode_token"
  by (simp add: lossless_def decode_encode encode_nonempty)

section \<open>Facts about the store queries\<close>

lemma findOne_user_None_iff:
  "findOne_user email username users = None \<longleftrightarrow>
     (\<forall>u\<in>set users. u_email u \<noteq> email \<and> u_username u \<noteq> username)"
  by (auto simp: findOne_user_def find_None_iff)

lemma findOne_user_SomeD:
  "findOne_user email username users = Some d \<Longrightarrow>
     d \<in> set users \<and> (u_email d = email \<or> u_username d = username)"
  by (auto simp: findOne_user_def find_Some_iff)

lemma findOne_post_None_iff:
  "findOne_post postId userId posts = None \<longleftrightarrow>
     (\<forall>p\<in>set posts. \<not> (p_id p = postId \<and> p_createdBy p = userId))"
  by (auto simp: findOne_post_def find_None_iff)

lemma findOne_post_SomeD:
  "findOne_post postId userId posts = Some p \<Longrightarrow>
     p \<in> set posts \<and> p_id p = postId \<and> p_createdBy p = userId"
  by (auto simp: findOne_post_def find_Some_iff)

section \<open>Signup\<close>

lemma lookup_loggedInUser:
  "lookup_var [(''newUser'', v)] ''loggedInUser'' = Inl (ReferenceError ''loggedInUser'')"
  by (simp add: lookup_var_def)

lemma signupUser_fresh:
  assumes "fullName \<noteq> []" "email \<noteq> []" "password \<noteq> []" "username \<noteq> []"
    and "findOne_user email username users = None"
  shows "signupUser B J secret now salt newId users
           \<lparr>sb_fullName = Some fullName, sb_email = Some email,
            sb_password = Some password, sb_username = Some username\<rparr> =
         (users @ [\<lparr>u_id = newId, u_fullName = fullName, u_email = email,
                    u_password = bcrypt_hash B password salt, u_username = username\<rparr>],
          NextError (ReferenceError ''loggedInUser''))"
  using assms by (simp add: signupUser_def lookup_loggedInUser Let_def)

lemma signupUser_duplicate:
  assumes "fullName \<noteq> []" "email \<noteq> []" "password \<noteq> []" "username \<noteq> []"
    and "findOne_user email username users = Some d"
  shows "signupUser B J secret now salt newId users
           \<lparr>sb_fullName = Some fullName, sb_email = Some email,
            sb_password = Some password, sb_username = Some username\<rparr> =
         (users, NextError (ApiError ''Account with same email or username already exists'' 409))"
  using assms by (simp add: signupUser_def)

text \<open>
  C1. The claim: a signup with all four fields present and no existing user of that email
  or username is answered 201 with the user and a token for the new account. On the code
  the scenario of the spec (John Doe, on an empty store) saves the account and then hands a
  \<^verbatim>\<open>ReferenceError\<close> to \<^verbatim>\<open>next\<close>: the payload names \<^verbatim>\<open>loggedInUser\<close>, which
  \<^verbatim>\<open>signupUser\<close> does not declare. No response with status 201 is sent.
\<close>

theorem signupUser_john_doe:
  "signupUser B J secret now salt newId []
     \<lparr>sb_fullName = Some ''John Doe'', sb_email = Some ''doe.john@example.com'',
      sb_password = Some ''john.doe.123'', sb_username = Some ''doe.john''\<rparr> =
   ([\<lparr>u_id = newId, u_fullName = ''John Doe'', u_email = ''doe.john@example.com'',
      u_password = bcrypt_hash B ''john.doe.123'' salt, u_username = ''doe.john''\<rparr>],
    NextError (ReferenceError ''loggedInUser''))"
  by (simp add: signupUser_def findOne_user_def lookup_var_def Let_def)

text \<open>
  C9. In \<^verbatim>\<open>signupUser\<close> the new account is saved before the token is built. A signup with
  all four fields present and no existing user of that email or username therefore ends in
  an error handed to \<^verbatim>\<open>next\<close> with the account in the store, and the same signup sent
  again (whatever the salt, the identifier or the time) is refused with 409.
\<close>

theorem signupUser_saves_before_token:
  assumes "fullName \<noteq> []" "email \<noteq> []" "password \<noteq> []" "username \<noteq> []"
    and "\<forall>u\<in>set users. u_email u \<noteq> email \<and> u_username u \<noteq> username"
  shows
    "signupUser B J secret now salt newId users
       \<lparr>sb_fullName = Some fullName, sb_email = Some email,
        sb_password = Some password, sb_username = Some username\<rparr> =
     (users @ [\<lparr>u_id = newId, u_fullName = fullName, u_email = email,
                u_password = bcrypt_hash B password salt, u_username = username\<rparr>],
      NextError (ReferenceError ''loggedInUser''))
     \<and> signupUser B' J' secret' now' salt' newId'
       (users @ [\<lparr>u_id = newId, u_fullName = fullName, u_email = email,
                  u_password = bcrypt_hash B password salt, u_username = username\<rparr>])
       \<lparr>sb_fullName = Some fullName, sb_email = Some email,
        sb_password = Some password, sb_username = Some username\<rparr> =
     (users @ [\<lparr>u_id = newId, u_fullName = fullName, u_email = email,
                u_password = bcrypt_hash B password salt, u_username = username\<rparr>],
      NextError (ApiError ''Account with same email or username already exists'' 409))"
proof -
  let ?doc = "\<lparr>u_id = newId, u_fullName = fullName, u_email = email,
               u_password = bcrypt_hash B password salt, u_username = username\<rparr>"
  from assms(5) have none: "findOne_user email username users = None"
    by (simp add: findOne_user_None_iff)
  have "findOne_user email username (users @ [?doc]) \<noteq> None"
    by (simp add: findOne_user_None_iff)
  then obtain d where some: "findOne_user email username (users @ [?doc]) = Some d"
    by blast
  show ?thesis
    using signupUser_fresh [OF assms(1-4) none] signupUser_duplicate [OF assms(1-4) some]
    by simp
qed

theorem signupUser_saves_before_token_witness:
  "signupUser reference_bcrypt reference_jwt ''secret'' 1000 ''salt'' ''id1'' []
       \<lparr>sb_fullName = Some ''John Doe'', sb_email = Some ''doe.john@example.com'',
        sb_password = Some ''john.doe.123'', sb_username = Some ''doe.john''\<rparr> =
     ([john], NextError (ReferenceError ''loggedInUser''))
   \<and> signupUser reference_bcrypt reference_jwt ''secret'' 2000 ''pepper'' ''id2'' [john]
       \<lparr>sb_fullName = Some ''John Doe'', sb_email = Some ''doe.john@example.com'',
        sb_password = Some ''john.doe.123'', sb_username = Some ''doe.john''\<rparr> =
     ([john], NextError (ApiError ''Account with same email or username already exists'' 409))"
  using signupUser_saves_before_token
    [of "''John Doe''" "''doe.john@example.com''" "''john.doe.123''" "''doe.john''" "[]"
      reference_bcrypt reference_jwt "''secret''" 1000 "''salt''" "''id1''"
      reference_bcrypt reference_jwt "''secret''" 2000 "''pepper''" "''id2''"]
  by (simp add: reference_bcrypt_def john_def)

text \<open>
  C6, as amended. A signup in which all four fields are present and whose email or username
  is that of an existing user is refused with 409, and the store is returned as it was. The
  existence check is the one query \<open>findOne_user\<close> over email or username.
\<close>

theorem signupUser_conflict:
  assumes "fullName \<noteq> []" "email \<noteq> []" "password \<noteq> []" "username \<noteq> []"
    and "u \<in> set users" and "u_email u = email \<or> u_username u = username"
  shows
    "findOne_user email username users \<noteq> None
     \<and> signupUser B J secret now salt newId users
       \<lparr>sb_fullName = Some fullName, sb_email = Some email,
        sb_password = Some password, sb_username = Some username\<rparr> =
     (users, NextError (ApiError ''Account with same email or username already exists'' 409))"
proof -
  from assms(5,6) have found: "findOne_user email username users \<noteq> None"
    by (auto simp: findOne_user_None_iff)
  then obtain d where "findOne_user email username users = Some d"
    by blast
  from signupUser_duplicate [OF assms(1-4) this] found show ?thesis
    by simp
qed

theorem signupUser_conflict_witness:
  "findOne_user ''doe.jane@example.com'' ''doe.john'' [john] \<noteq> None
   \<and> signupUser reference_bcrypt reference_jwt ''secret'' 1000 ''salt'' ''id2'' [john]
       \<lparr>sb_fullName = Some ''Jane Doe'', sb_email = Some ''doe.jane@example.com'',
        sb_password = Some ''pw'', sb_username = Some ''doe.john''\<rparr> =
     ([john], NextError (ApiError ''Account with same email or username already exists'' 409))"
  using signupUser_conflict
    [of "''Jane Doe''" "''doe.jane@example.com''" "''pw''" "''doe.john''" john "[john]"
      reference_bcrypt reference_jwt "''secret''" 1000 "''salt''" "''id2''"]
  by (simp add: john_def)

text \<open>
  C6 as stated fails: a signup whose email and username are those of an existing user, and
  whose password is absent, is refused with 400 by the check of the required fields, which
  runs before the store is queried.
\<close>

theorem signupUser_conflict_counterexample:
  "john \<in> set [john] \<and> u_email john = ''doe.john@example.com''
   \<and> signupUser reference_bcrypt reference_jwt ''secret'' 1000 ''salt'' ''id2'' [john]
       \<lparr>sb_fullName = Some ''John Doe'', sb_email = Some ''doe.john@example.com'',
        sb_password = None, sb_username = Some ''doe.john''\<rparr> =
     ([john], NextError (ApiError ''Required fields are missing'' 400))"
  by (simp add: signupUser_def john_def)

section \<open>Login\<close>

text \<open>
  C5. For a login with both fields present: 404 when no user has the given value as email
  or as username; when the query finds a user, 401 if \<^verbatim>\<open>bcrypt.compare\<close> rejects the
  password against the stored hash, and otherwise 200 with a token and the user, whose
  password field is removed.
\<close>

theorem loginUser_responses:
  assumes "user \<noteq> []" and "password \<noteq> []"
  shows
    "((\<forall>u\<in>set users. u_email u \<noteq> user \<and> u_username u \<noteq> user) \<longrightarrow>
        loginUser B J secret now users \<lparr>lb_user = Some user, lb_password = Some password\<rparr> =
          (users, NextError (ApiError ''User does not exist!'' 404)))
     \<and> (\<forall>doc. findOne_user user user users = Some doc \<longrightarrow>
          doc \<in> set users \<and> (u_email doc = user \<or> u_username doc = user)
          \<and> (\<not> bcrypt_compare B password (u_password doc) \<longrightarrow>
                loginUser B J secret now users \<lparr>lb_user = Some user, lb_password = Some password\<rparr> =
                  (users, NextError (ApiError ''Invalid Password'' 401)))
          \<and> (bcrypt_compare B password (u_password doc) \<longrightarrow>
                loginUser B J secret now users \<lparr>lb_user = Some user, lb_password = Some password\<rparr> =
                  (users,
                   Responded \<lparr>status = 200, message = ''User login successful!'',
                     payload_data =
                       UserToken
                         \<lparr>o_id = u_id doc, o_fullName = u_fullName doc, o_email = u_email doc,
                          o_password = None, o_username = u_username doc\<rparr>
                         (jwt_sign J
                            \<lparr>sp_user =
                               \<lparr>o_id = u_id doc, o_fullName = u_fullName doc,
                                o_email = u_email doc, o_password = None,
                                o_username = u_username doc\<rparr>\<rparr>
                            secret expiresIn_1d now),
                     success = True\<rparr>)))"
proof (intro conjI impI allI)
  assume "\<forall>u\<in>set users. u_email u \<noteq> user \<and> u_username u \<noteq> user"
  then have "findOne_user user user users = None"
    by (simp add: findOne_user_None_iff)
  with assms show "loginUser B J secret now users \<lparr>lb_user = Some user, lb_password = Some password\<rparr> =
      (users, NextError (ApiError ''User does not exist!'' 404))"
    by (simp add: loginUser_def)
next
  fix doc
  assume "findOne_user user user users = Some doc"
  then show "doc \<in> set users" and "u_email doc = user \<or> u_username doc = user"
    by (simp_all add: findOne_user_SomeD)
next
  fix doc
  assume "findOne_user user user users = Some doc"
    and "\<not> bcrypt_compare B password (u_password doc)"
  with assms show "loginUser B J secret now users \<lparr>lb_user = Some user, lb_password = Some password\<rparr> =
      (users, NextError (ApiError ''Invalid Password'' 401))"
    by (simp add: loginUser_def)
next
  fix doc
  assume "findOne_user user user users = Some doc"
    and "bcrypt_compare B password (u_password doc)"
  with assms show "loginUser B J secret now users \<lparr>lb_user = Some user, lb_password = Some password\<rparr> =
      (users,
       Responded \<lparr>status = 200, message = ''User login successful!'',
         payload_data =
           UserToken
             \<lparr>o_id = u_id doc, o_fullName = u_fullName doc, o_email = u_email doc,
              o_password = None, o_username = u_username doc\<rparr>
             (jwt_sign J
                \<lparr>sp_user =
                   \<lparr>o_id = u_id doc, o_fullName = u_fullName doc,
                    o_email = u_email doc, o_password = None,
                    o_username = u_username doc\<rparr>\<rparr>
                secret expiresIn_1d now),
         success = True\<rparr>)"
    by (simp add: loginUser_def toObject_user_def delete_password_def Let_def)
qed

theorem loginUser_responses_witness:
  "loginUser reference_bcrypt reference_jwt ''secret'' 1000 [john]
     \<lparr>lb_user = Some ''doe.jane'', lb_password = Some ''john.doe.123''\<rparr> =
     ([john], NextError (ApiError ''User does not exist!'' 404))
   \<and> loginUser reference_bcrypt reference_jwt ''secret'' 1000 [john]
     \<lparr>lb_user = Some ''doe.john'', lb_password = Some ''wrong''\<rparr> =
     ([john], NextError (ApiError ''Invalid Password'' 401))
   \<and> loginUser reference_bcrypt reference_jwt ''secret'' 1000 [john]
     \<lparr>lb_user = Some ''doe.john'', lb_password = Some ''john.doe.123''\<rparr> =
     ([john],
      Responded \<lparr>status = 200, message = ''User login successful!'',
        payload_data =
          UserToken john_obj
            (jwt_sign reference_jwt \<lparr>sp_user = john_obj\<rparr> ''secret'' expiresIn_1d 1000),
        success = True\<rparr>)"
proof -
  have unknown: "\<forall>u\<in>set [john]. u_email u \<noteq> ''doe.jane'' \<and> u_username u \<noteq> ''doe.jane''"
    by (simp add: john_def)
  have found: "findOne_user ''doe.john'' ''doe.john'' [john] = Some john"
    by (simp add: findOne_user_def john_def)
  have bad: "\<not> bcrypt_compare reference_bcrypt ''wrong'' (u_password john)"
    by (simp add: reference_bcrypt_def john_def)
  have good: "bcrypt_compare reference_bcrypt ''john.doe.123'' (u_password john)"
    by (simp add: reference_bcrypt_def john_def)
  have ne: "''doe.jane'' \<noteq> []" "''doe.john'' \<noteq> []" "''john.doe.123'' \<noteq> []" "''wrong'' \<noteq> []"
    by simp_all
  from loginUser_responses
    [OF ne(1) ne(3), of "[john]" reference_bcrypt reference_jwt "''secret''" 1000] unknown
  have c1: "loginUser reference_bcrypt reference_jwt ''secret'' 1000 [john]
     \<lparr>lb_user = Some ''doe.jane'', lb_password = Some ''john.doe.123''\<rparr> =
     ([john], NextError (ApiError ''User does not exist!'' 404))"
    by blast
  from loginUser_responses
    [OF ne(2) ne(4), of "[john]" reference_bcrypt reference_jwt "''secret''" 1000] found bad
  have c2: "loginUser reference_bcrypt reference_jwt ''secret'' 1000 [john]
     \<lparr>lb_user = Some ''doe.john'', lb_password = Some ''wrong''\<rparr> =
     ([john], NextError (ApiError ''Invalid Password'' 401))"
    by blast
  have obj: "\<lparr>o_id = u_id john, o_fullName = u_fullName john, o_email = u_email john,
      o_password = None, o_username = u_username john\<rparr> = john_obj"
    by (simp add: john_def john_obj_def)
  from loginUser_responses
    [OF ne(2) ne(3), of "[john]" reference_bcrypt reference_jwt "''secret''" 1000] found good
  have c3: "loginUser reference_bcrypt reference_jwt ''secret'' 1000 [john]
     \<lparr>lb_user = Some ''doe.john'', lb_password = Some ''john.doe.123''\<rparr> =
     ([john],
      Responded \<lparr>status = 200, message = ''User login successful!'',
        payload_data =
          UserToken john_obj
            (jwt_sign reference_jwt \<lparr>sp_user = john_obj\<rparr> ''secret'' expiresIn_1d 1000),
        success = True\<rparr>)"
    unfolding obj [symmetric] by blast
  from c1 c2 c3 show ?thesis
    by (intro conjI)
qed

section \<open>Creating a post\<close>

text \<open>
  C7. \<^verbatim>\<open>createPost\<close> hands a 400 error to \<^verbatim>\<open>next\<close> when the title is absent or empty;
  otherwise it stores a post whose \<^verbatim>\<open>createdBy\<close> is the \<^verbatim>\<open>_id\<close> of the authenticated
  identity and responds 201 with that post as a plain object.
\<close>

theorem createPost_responses:
  "(falsy title \<longrightarrow>
      createPost newId posts user title =
        (posts, NextError (ApiError ''Required fields are missing!'' 400)))
   \<and> (\<forall>t. title = Some t \<and> t \<noteq> [] \<longrightarrow>
        createPost newId posts user title =
          (posts @ [\<lparr>p_id = newId, p_title = t, p_createdBy = o_id user\<rparr>],
           Responded \<lparr>status = 201, message = ''Post created successfully!'',
             payload_data = PostData \<lparr>po_id = newId, po_title = t, po_createdBy = o_id user\<rparr>,
             success = True\<rparr>))"
  by (auto simp: falsy_def createPost_def toObject_post_def Let_def split: option.splits)

theorem createPost_responses_witness:
  "createPost ''507f1f77bcf86cd799439011'' [] john_obj (Some '''') =
     ([], NextError (ApiError ''Required fields are missing!'' 400))
   \<and> createPost ''507f1f77bcf86cd799439011'' [] john_obj None =
     ([], NextError (ApiError ''Required fields are missing!'' 400))
   \<and> createPost ''507f1f77bcf86cd799439011'' [] john_obj (Some ''Hello'') =
     ([hello],
      Responded \<lparr>status = 201, message = ''Post created successfully!'',
        payload_data = PostData \<lparr>po_id = ''507f1f77bcf86cd799439011'', po_title = ''Hello'', po_createdBy = ''id1''\<rparr>,
        success = True\<rparr>)"
  using createPost_responses [of "Some ''''" "''507f1f77bcf86cd799439011''" "[]" john_obj]
    createPost_responses [of None "''507f1f77bcf86cd799439011''" "[]" john_obj]
    createPost_responses [of "Some ''Hello''" "''507f1f77bcf86cd799439011''" "[]" john_obj]
  by (simp add: falsy_def john_obj_def hello_def)

section \<open>Updating and deleting a post\<close>

text \<open>
  The store keeps \<^verbatim>\<open>_id\<close> unique. Under that invariant \<^verbatim>\<open>save()\<close> and \<^verbatim>\<open>delete()\<close>
  touch exactly the position of the document they were called on.
\<close>

lemma save_post_update:
  "i < length posts \<Longrightarrow> distinct (map p_id posts) \<Longrightarrow> p_id p = p_id (posts ! i) \<Longrightarrow>
     save_post p posts = posts[i := p]"
proof (induction posts arbitrary: i)
  case Nil
  then show ?case by simp
next
  case (Cons q qs)
  show ?case
  proof (cases i)
    case 0
    with Cons.prems show ?thesis by simp
  next
    case (Suc j)
    with Cons.prems have j: "j < length qs" and d: "distinct (map p_id qs)"
      and e: "p_id p = p_id (qs ! j)" and "p_id q \<notin> p_id ` set qs"
      by simp_all
    then have "p_id q \<noteq> p_id p"
      by (metis imageI nth_mem)
    with Cons.IH [OF j d e] Suc show ?thesis by simp
  qed
qed

lemma set_delete_post: "set (delete_post p posts) \<subseteq> set posts"
  by (induction posts) auto

lemma findOne_post_index:
  "findOne_post postId userId posts = Some p \<Longrightarrow>
     \<exists>i<length posts. posts ! i = p \<and> p_id p = postId \<and> p_createdBy p = userId"
  by (auto simp: findOne_post_def find_Some_iff)

lemma findOne_post_foreign:
  assumes "p \<in> set posts" and "distinct (map p_id posts)" and "p_createdBy p \<noteq> userId"
  shows "findOne_post (p_id p) userId posts = None"
proof -
  have "q = p" if "q \<in> set posts" and "p_id q = p_id p" for q
    using that assms(1,2) by (meson distinct_map inj_onD)
  with assms(3) show ?thesis
    by (auto simp: findOne_post_None_iff)
qed

lemma findOne_post_absent:
  assumes "\<forall>q\<in>set posts. p_id q \<noteq> i"
  shows "findOne_post i userId posts = None"
  using assms by (auto simp: findOne_post_None_iff)

lemma updatePost_success:
  assumes "updatePost isValidObjectId posts user title postId = (posts', Responded r)"
  shows "\<exists>t i post. title = Some t \<and> t \<noteq> [] \<and> postId = Some i \<and> i \<noteq> [] \<and> isValidObjectId i
           \<and> findOne_post i (o_id user) posts = Some post
           \<and> posts' = save_post (post\<lparr>p_title := t\<rparr>) posts
           \<and> r = \<lparr>status = 200, message = ''Post updated successfully!'',
                   payload_data = PostData (toObject_post (post\<lparr>p_title := t\<rparr>)), success = True\<rparr>"
  using assms
  by (auto simp: updatePost_def Let_def split: option.splits if_splits)

lemma updatePost_failure:
  "updatePost isValidObjectId posts user title postId = (posts', NextError e) \<Longrightarrow> posts' = posts"
  by (auto simp: updatePost_def Let_def split: option.splits if_splits)

lemma deletePost_subset: "set (fst (deletePost isValidObjectId posts user postId)) \<subseteq> set posts"
  using set_delete_post
  by (auto simp: deletePost_def split: option.splits)

lemma createPost_prefix: "take (length posts) (fst (createPost newId posts user title)) = posts"
  by (simp add: createPost_def Let_def split: option.splits)

lemma updatePost_changes_title_only:
  assumes "distinct (map p_id posts)"
    and "updatePost isValidObjectId posts user title postId = (posts', Responded r)"
  shows "\<exists>i t. i < length posts \<and> title = Some t \<and> postId = Some (p_id (posts ! i))
           \<and> p_createdBy (posts ! i) = o_id user
           \<and> posts' = posts[i := (posts ! i)\<lparr>p_title := t\<rparr>]
           \<and> map p_id posts' = map p_id posts
           \<and> map p_createdBy posts' = map p_createdBy posts
           \<and> (\<forall>j<length posts. j \<noteq> i \<longrightarrow> posts' ! j = posts ! j)"
proof -
  from updatePost_success [OF assms(2)] obtain t k post where
    t: "title = Some t" and k: "postId = Some k"
    and f: "findOne_post k (o_id user) posts = Some post"
    and p': "posts' = save_post (post\<lparr>p_title := t\<rparr>) posts"
    by blast
  from findOne_post_index [OF f] obtain i where
    i: "i < length posts" and pi: "posts ! i = post" and pid: "p_id post = k"
    and own: "p_createdBy post = o_id user"
    by blast
  from save_post_update [OF i assms(1), of "post\<lparr>p_title := t\<rparr>"] pi p'
  have upd: "posts' = posts[i := (posts ! i)\<lparr>p_title := t\<rparr>]"
    by simp
  have ids: "map p_id posts' = map p_id posts"
    unfolding upd using i by (simp add: map_update list_update_same_conv)
  have owners: "map p_createdBy posts' = map p_createdBy posts"
    unfolding upd using i by (simp add: map_update list_update_same_conv)
  have others: "\<forall>j<length posts. j \<noteq> i \<longrightarrow> posts' ! j = posts ! j"
    unfolding upd by simp
  from i t k pi pid own upd ids owners others show ?thesis
    by blast
qed

lemma updatePost_keeps_ids_and_owners:
  assumes "distinct (map p_id posts)"
  shows "map p_id (fst (updatePost isValidObjectId posts user title postId)) = map p_id posts
     \<and> map p_createdBy (fst (updatePost isValidObjectId posts user title postId)) =
         map p_createdBy posts"
proof (cases "updatePost isValidObjectId posts user title postId")
  case (Pair posts' out)
  show ?thesis
  proof (cases out)
    case (Responded r)
    with Pair have "updatePost isValidObjectId posts user title postId = (posts', Responded r)"
      by simp
    from updatePost_changes_title_only [OF assms this]
    have "map p_id posts' = map p_id posts \<and> map p_createdBy posts' = map p_createdBy posts"
      by blast
    with Pair show ?thesis by simp
  next
    case (NextError e)
    with Pair have "updatePost isValidObjectId posts user title postId = (posts', NextError e)"
      by simp
    from updatePost_failure [OF this] Pair show ?thesis by simp
  qed
qed

text \<open>
  C2, as amended. Let \<open>p\<close> be a stored post whose \<^verbatim>\<open>createdBy\<close> is not the authenticated
  user B. \<^verbatim>\<open>deletePost\<close> called by B with the id of \<open>p\<close>, and \<^verbatim>\<open>updatePost\<close> called by B
  with that id and a non-empty title, hand to \<^verbatim>\<open>next\<close> the same 404 error (never a 403)
  that they hand over on a store holding no post of that id, and return the store as it
  was; \<^verbatim>\<open>updatePost\<close> leaves the store as it was whatever the title. Existence and
  ownership are decided by the one query \<open>findOne_post\<close> on \<^verbatim>\<open>_id\<close> and \<^verbatim>\<open>createdBy\<close>.
\<close>

theorem foreign_post_not_found:
  assumes "p \<in> set posts" and "distinct (map p_id posts)" and "p_createdBy p \<noteq> o_id userB"
    and "title \<noteq> []" and "p_id p \<noteq> []" and "isValidObjectId (p_id p)"
    and "\<forall>q\<in>set others. p_id q \<noteq> p_id p"
  shows
    "updatePost isValidObjectId posts userB (Some title) (Some (p_id p)) =
       (posts, NextError (ApiError (''Post with id: '' @ p_id p @ '' does not exist!'') 404))
     \<and> deletePost isValidObjectId posts userB (Some (p_id p)) =
       (posts, NextError (ApiError (''Post with id: '' @ p_id p @ '' does not exist!'') 404))
     \<and> updatePost isValidObjectId others userB (Some title) (Some (p_id p)) =
       (others, NextError (ApiError (''Post with id: '' @ p_id p @ '' does not exist!'') 404))
     \<and> deletePost isValidObjectId others userB (Some (p_id p)) =
       (others, NextError (ApiError (''Post with id: '' @ p_id p @ '' does not exist!'') 404))
     \<and> fst (updatePost isValidObjectId posts userB anyTitle (Some (p_id p))) = posts"
proof -
  note f = findOne_post_foreign [OF assms(1-3)]
  note a = findOne_post_absent [OF assms(7), of "o_id userB"]
  have "fst (updatePost isValidObjectId posts userB anyTitle (Some (p_id p))) = posts"
    using f by (simp add: updatePost_def split: option.splits)
  with assms(4-6) f a show ?thesis
    by (simp add: updatePost_def deletePost_def)
qed

theorem foreign_post_not_found_witness:
  "updatePost reference_isValidObjectId [hello, other] jane_obj (Some ''Mine now'')
       (Some ''507f1f77bcf86cd799439011'') =
     ([hello, other],
      NextError (ApiError ''Post with id: 507f1f77bcf86cd799439011 does not exist!'' 404))
   \<and> deletePost reference_isValidObjectId [hello, other] jane_obj
       (Some ''507f1f77bcf86cd799439011'') =
     ([hello, other],
      NextError (ApiError ''Post with id: 507f1f77bcf86cd799439011 does not exist!'' 404))
   \<and> updatePost reference_isValidObjectId [other] jane_obj (Some ''Mine now'')
       (Some ''507f1f77bcf86cd799439011'') =
     ([other],
      NextError (ApiError ''Post with id: 507f1f77bcf86cd799439011 does not exist!'' 404))
   \<and> deletePost reference_isValidObjectId [other] jane_obj
       (Some ''507f1f77bcf86cd799439011'') =
     ([other],
      NextError (ApiError ''Post with id: 507f1f77bcf86cd799439011 does not exist!'' 404))
   \<and> fst (updatePost reference_isValidObjectId [hello, other] jane_obj None
       (Some ''507f1f77bcf86cd799439011'')) = [hello, other]"
proof -
  have id: "p_id hello = ''507f1f77bcf86cd799439011''"
    by (simp add: hello_def)
  have h: "hello \<in> set [hello, other]" "distinct (map p_id [hello, other])"
    "p_createdBy hello \<noteq> o_id jane_obj" "''Mine now'' \<noteq> []" "p_id hello \<noteq> []"
    "reference_isValidObjectId (p_id hello)" "\<forall>q\<in>set [other]. p_id q \<noteq> p_id hello"
    by (simp_all add: hello_def other_def jane_obj_def reference_isValidObjectId_def)
  from foreign_post_not_found
    [where isValidObjectId = reference_isValidObjectId and anyTitle = None, OF h]
  show ?thesis
    unfolding id by simp
qed

text \<open>
  C2 as stated fails for \<^verbatim>\<open>updatePost\<close>: called by Jane with the id of John's post and no
  title, it hands over the 400 error of the check of the required fields, not a 404.
\<close>

theorem foreign_post_update_counterexample:
  "hello \<in> set [hello, other] \<and> p_createdBy hello \<noteq> o_id jane_obj
   \<and> updatePost reference_isValidObjectId [hello, other] jane_obj None (Some (p_id hello)) =
     ([hello, other], NextError (ApiError ''Required fields are missing'' 400))"
  by (simp add: updatePost_def hello_def jane_obj_def)

text \<open>
  C8. On a store with unique \<^verbatim>\<open>_id\<close>s, a successful \<^verbatim>\<open>updatePost\<close> replaces the title of
  one post, the one with the given id that the caller created, and nothing else: the store
  after is the store before with that one field updated. Whatever its outcome,
  \<^verbatim>\<open>updatePost\<close> keeps the \<^verbatim>\<open>_id\<close> and the \<^verbatim>\<open>createdBy\<close> of every post; \<^verbatim>\<open>createPost\<close>
  only appends, and \<^verbatim>\<open>deletePost\<close> only removes, so no controller reassigns \<^verbatim>\<open>createdBy\<close>.
\<close>

theorem updatePost_frame:
  assumes "distinct (map p_id posts)"
  shows
    "(\<forall>posts' r. updatePost isValidObjectId posts user title postId = (posts', Responded r) \<longrightarrow>
        (\<exists>i t. i < length posts \<and> title = Some t \<and> postId = Some (p_id (posts ! i))
           \<and> p_createdBy (posts ! i) = o_id user
           \<and> posts' = posts[i := (posts ! i)\<lparr>p_title := t\<rparr>]
           \<and> (\<forall>j<length posts. j \<noteq> i \<longrightarrow> posts' ! j = posts ! j)))
     \<and> map p_id (fst (updatePost isValidObjectId posts user title postId)) = map p_id posts
     \<and> map p_createdBy (fst (updatePost isValidObjectId posts user title postId)) =
         map p_createdBy posts
     \<and> take (length posts) (fst (createPost newId posts user title)) = posts
     \<and> set (fst (deletePost isValidObjectId posts user postId)) \<subseteq> set posts"
proof (intro conjI allI impI)
  fix posts' r
  assume "updatePost isValidObjectId posts user title postId = (posts', Responded r)"
  from updatePost_changes_title_only [OF assms this] obtain i t where
    "i < length posts" "title = Some t" "postId = Some (p_id (posts ! i))"
    "p_createdBy (posts ! i) = o_id user" "posts' = posts[i := (posts ! i)\<lparr>p_title := t\<rparr>]"
    "\<forall>j<length posts. j \<noteq> i \<longrightarrow> posts' ! j = posts ! j"
    by blast
  then show "\<exists>i t. i < length posts \<and> title = Some t \<and> postId = Some (p_id (posts ! i))
           \<and> p_createdBy (posts ! i) = o_id user
           \<and> posts' = posts[i := (posts ! i)\<lparr>p_title := t\<rparr>]
           \<and> (\<forall>j<length posts. j \<noteq> i \<longrightarrow> posts' ! j = posts ! j)"
    by (intro exI [of _ i] exI [of _ t] conjI)
next
  show "map p_id (fst (updatePost isValidObjectId posts user title postId)) = map p_id posts"
    using updatePost_keeps_ids_and_owners [OF assms] by (rule conjunct1)
next
  show "map p_createdBy (fst (updatePost isValidObjectId posts user title postId)) =
         map p_createdBy posts"
    using updatePost_keeps_ids_and_owners [OF assms] by (rule conjunct2)
next
  show "take (length posts) (fst (createPost newId posts user title)) = posts"
    by (rule createPost_prefix)
next
  show "set (fst (deletePost isValidObjectId posts user postId)) \<subseteq> set posts"
    by (rule deletePost_subset)
qed

lemma updatePost_hello:
  "updatePost reference_isValidObjectId [hello, other] john_obj (Some ''Hello, there!'')
       (Some ''507f1f77bcf86cd799439011'') =
     ([hello\<lparr>p_title := ''Hello, there!''\<rparr>, other],
      Responded \<lparr>status = 200, message = ''Post updated successfully!'',
        payload_data = PostData \<lparr>po_id = ''507f1f77bcf86cd799439011'',
          po_title = ''Hello, there!'', po_createdBy = ''id1''\<rparr>, success = True\<rparr>)"
proof -
  have found: "findOne_post ''507f1f77bcf86cd799439011'' (o_id john_obj) [hello, other] =
      Some hello"
    by (simp add: findOne_post_def hello_def john_obj_def)
  have valid: "reference_isValidObjectId ''507f1f77bcf86cd799439011''"
    by (simp add: reference_isValidObjectId_def)
  have saved: "save_post (hello\<lparr>p_title := ''Hello, there!''\<rparr>) [hello, other] =
      [hello\<lparr>p_title := ''Hello, there!''\<rparr>, other]"
    by simp
  have obj: "toObject_post (hello\<lparr>p_title := ''Hello, there!''\<rparr>) =
      \<lparr>po_id = ''507f1f77bcf86cd799439011'', po_title = ''Hello, there!'',
       po_createdBy = ''id1''\<rparr>"
    by (simp add: toObject_post_def hello_def)
  show ?thesis
    by (simp add: updatePost_def found valid saved obj Let_def)
qed

theorem updatePost_frame_witness:
  "fst (updatePost reference_isValidObjectId [hello, other] john_obj (Some ''Hello, there!'')
       (Some ''507f1f77bcf86cd799439011'')) = [hello\<lparr>p_title := ''Hello, there!''\<rparr>, other]
   \<and> map p_id (fst (updatePost reference_isValidObjectId [hello, other] john_obj
        (Some ''Hello, there!'') (Some ''507f1f77bcf86cd799439011''))) = map p_id [hello, other]
   \<and> map p_createdBy (fst (updatePost reference_isValidObjectId [hello, other] john_obj
        (Some ''Hello, there!'') (Some ''507f1f77bcf86cd799439011''))) =
       map p_createdBy [hello, other]"
proof -
  have d: "distinct (map p_id [hello, other])"
    by (simp add: hello_def other_def)
  note frame = updatePost_frame
    [where isValidObjectId = reference_isValidObjectId and user = john_obj
      and title = "Some ''Hello, there!''" and postId = "Some ''507f1f77bcf86cd799439011''",
      OF d]
  show ?thesis
  proof (intro conjI)
    show "fst (updatePost reference_isValidObjectId [hello, other] john_obj
        (Some ''Hello, there!'') (Some ''507f1f77bcf86cd799439011'')) =
        [hello\<lparr>p_title := ''Hello, there!''\<rparr>, other]"
      by (simp add: updatePost_hello)
  next
    show "map p_id (fst (updatePost reference_isValidObjectId [hello, other] john_obj
        (Some ''Hello, there!'') (Some ''507f1f77bcf86cd799439011''))) = map p_id [hello, other]"
      by (rule frame [THEN conjunct2, THEN conjunct1])
  next
    show "map p_createdBy (fst (updatePost reference_isValidObjectId [hello, other] john_obj
        (Some ''Hello, there!'') (Some ''507f1f77bcf86cd799439011''))) =
        map p_createdBy [hello, other]"
      by (rule frame [THEN conjunct2, THEN conjunct2, THEN conjunct1])
  qed
qed

section \<open>The authentication middleware\<close>

text \<open>
  C3. Whatever \<^verbatim>\<open>jwt.verify\<close> is: the middleware rejects when the authorization header is
  absent (or empty), when verification fails, for whatever reason, and when the decoded
  payload has no user. The three failures differ only in the error written to the log: the
  cookies cleared (\<open>authToken\<close>) and the response sent (401, Access Denied) are the same for
  every failure. When verification succeeds and the payload has a user, the middleware
  attaches that user to the request and calls \<^verbatim>\<open>next()\<close>.
\<close>

theorem auth_responses:
  "(falsy (authorization req) \<longrightarrow> auth J secret now req = deny NoAuthToken)
   \<and> (\<forall>h e. authorization req = Some h \<and> h \<noteq> [] \<and> jwt_verify J h secret now = Inl e \<longrightarrow>
         auth J secret now req = deny (VerifyFailed e))
   \<and> (\<forall>h d. authorization req = Some h \<and> h \<noteq> [] \<and> jwt_verify J h secret now = Inr d
         \<and> d_user d = None \<longrightarrow>
         auth J secret now req = deny UserObjectMissing)
   \<and> (\<forall>failure. visible (deny failure) =
         Some ([''authToken''],
           \<lparr>status = 401, message = ''Access Denied'', payload_data = NoData, success = False\<rparr>))
   \<and> (\<forall>h d u. authorization req = Some h \<and> h \<noteq> [] \<and> jwt_verify J h secret now = Inr d
         \<and> d_user d = Some u \<longrightarrow>
         auth J secret now req = Passed (req\<lparr>req_user := Some u\<rparr>))"
  by (auto simp: auth_def deny_def falsy_def split: option.splits)

lemma verify_reference:
  "jwt_verify reference_jwt (encode_token (Token d key)) secret now =
     (if key \<noteq> secret then Inl JsonWebTokenError
      else if d_exp d < now then Inl TokenExpiredError
      else Inr d)"
  by (simp add: reference_jwt_def spec_jwt_def verify_token_def decode_encode)

theorem auth_responses_witness:
  "auth reference_jwt ''secret'' 2000 \<lparr>authorization = None, req_user = None\<rparr> = deny NoAuthToken
   \<and> auth reference_jwt ''secret'' 2000 \<lparr>authorization = Some '''', req_user = None\<rparr> =
       deny NoAuthToken
   \<and> auth reference_jwt ''other secret'' 2000
       \<lparr>authorization = Some (encode_token john_token), req_user = None\<rparr> =
       deny (VerifyFailed JsonWebTokenError)
   \<and> auth reference_jwt ''secret'' 90000
       \<lparr>authorization = Some (encode_token john_token), req_user = None\<rparr> =
       deny (VerifyFailed TokenExpiredError)
   \<and> auth reference_jwt ''secret'' 2000
       \<lparr>authorization = Some (encode_token anonymous_token), req_user = None\<rparr> =
       deny UserObjectMissing
   \<and> visible (deny UserObjectMissing) =
       Some ([''authToken''],
         \<lparr>status = 401, message = ''Access Denied'', payload_data = NoData, success = False\<rparr>)
   \<and> auth reference_jwt ''secret'' 2000
       \<lparr>authorization = Some (encode_token john_token), req_user = None\<rparr> =
       Passed \<lparr>authorization = Some (encode_token john_token), req_user = Some john_obj\<rparr>"
proof -
  let ?none = "\<lparr>authorization = None, req_user = None\<rparr>"
  let ?empty = "\<lparr>authorization = Some '''', req_user = None\<rparr>"
  let ?john = "\<lparr>authorization = Some (encode_token john_token), req_user = None\<rparr>"
  let ?anon = "\<lparr>authorization = Some (encode_token anonymous_token), req_user = None\<rparr>"
  have v1: "jwt_verify reference_jwt (encode_token john_token) ''other secret'' 2000 =
      Inl JsonWebTokenError"
    by (simp add: john_token_def verify_reference)
  have v2: "jwt_verify reference_jwt (encode_token john_token) ''secret'' 90000 =
      Inl TokenExpiredError"
    by (simp add: john_token_def verify_reference)
  have v3: "jwt_verify reference_jwt (encode_token anonymous_token) ''secret'' 2000 =
      Inr \<lparr>d_user = None, d_iat = 1000, d_exp = 87400\<rparr>"
    by (simp add: anonymous_token_def verify_reference)
  have v4: "jwt_verify reference_jwt (encode_token john_token) ''secret'' 2000 =
      Inr \<lparr>d_user = Some john_obj, d_iat = 1000, d_exp = 87400\<rparr>"
    by (simp add: john_token_def verify_reference)
  have c1: "auth reference_jwt ''secret'' 2000 ?none = deny NoAuthToken"
    using auth_responses [of ?none reference_jwt "''secret''" 2000]
    by (simp add: falsy_def)
  have c2: "auth reference_jwt ''secret'' 2000 ?empty = deny NoAuthToken"
    using auth_responses [of ?empty reference_jwt "''secret''" 2000]
    by (simp add: falsy_def)
  have c3: "auth reference_jwt ''other secret'' 2000 ?john = deny (VerifyFailed JsonWebTokenError)"
    using auth_responses [of ?john reference_jwt "''other secret''" 2000] v1
    by (simp add: encode_nonempty)
  have c4: "auth reference_jwt ''secret'' 90000 ?john = deny (VerifyFailed TokenExpiredError)"
    using auth_responses [of ?john reference_jwt "''secret''" 90000] v2
    by (simp add: encode_nonempty)
  have c5: "auth reference_jwt ''secret'' 2000 ?anon = deny UserObjectMissing"
    using auth_responses [of ?anon reference_jwt "''secret''" 2000] v3
    by (simp add: encode_nonempty)
  have c6: "visible (deny UserObjectMissing) =
       Some ([''authToken''],
         \<lparr>status = 401, message = ''Access Denied'', payload_data = NoData, success = False\<rparr>)"
    using auth_responses [of ?none reference_jwt "''secret''" 2000]
    by blast
  have c7: "auth reference_jwt ''secret'' 2000 ?john =
       Passed \<lparr>authorization = Some (encode_token john_token), req_user = Some john_obj\<rparr>"
    using auth_responses [of ?john reference_jwt "''secret''" 2000] v4
    by (simp add: encode_nonempty)
  from c1 c2 c3 c4 c5 c6 c7 show ?thesis
    by (intro conjI)
qed

lemma space_put_field: "CHR '' '' \<notin> set s \<Longrightarrow> CHR '' '' \<notin> set (put_field s)"
  by (auto simp: put_field_def)

lemma space_put_number: "CHR '' '' \<notin> set (put_field (replicate n (CHR ''1'')))"
  by (auto simp: put_field_def)

lemma ada_token_compact: "CHR '' '' \<notin> set (encode_token ada_token)"
  by (simp add: encode_token_def ada_token_def ada_obj_def put_user_def space_put_field
      space_put_number)

lemma compact_jwt_compact:
  "\<forall>s d. jwt_verify compact_jwt s secret now = Inr d \<longrightarrow> CHR '' '' \<notin> set s"
  by (simp add: compact_jwt_def)

text \<open>
  C10. The middleware gives \<^verbatim>\<open>jwt.verify\<close> the value of the authorization header as it is,
  with no \<open>Bearer\<close> prefix removed. First, its result depends on the verifier only through
  what the verifier answers on that very string. Second, a request passes only if the
  verifier accepts the header string itself. Third, for a verifier of compact tokens, which
  accepts no string that has a space in it, the header made of \<open>Bearer\<close>, a space and any
  token fails verification, and the middleware clears the cookie and sends the 401 Access
  Denied response. Fourth, the request whose header is the bare valid token passes, with
  the user of the token attached.
\<close>

theorem auth_header_verbatim:
  "((\<forall>h. authorization req = Some h \<longrightarrow>
        jwt_verify J h secret now = jwt_verify J' h secret now) \<longrightarrow>
      auth J secret now req = auth J' secret now req)
   \<and> (\<forall>req'. auth J secret now req = Passed req' \<longrightarrow>
        (\<exists>h d u. authorization req = Some h \<and> h \<noteq> [] \<and> jwt_verify J h secret now = Inr d
           \<and> d_user d = Some u \<and> req' = req\<lparr>req_user := Some u\<rparr>))
   \<and> ((\<forall>s d. jwt_verify J s secret now = Inr d \<longrightarrow> CHR '' '' \<notin> set s) \<longrightarrow>
        (\<exists>e. jwt_verify J (''Bearer '' @ tok) secret now = Inl e
           \<and> auth J secret now (req\<lparr>authorization := Some (''Bearer '' @ tok)\<rparr>) =
               Rejected (VerifyFailed e) [''authToken'']
                 \<lparr>status = 401, message = ''Access Denied'', payload_data = NoData,
                  success = False\<rparr>))
   \<and> (tok \<noteq> [] \<and> jwt_verify J tok secret now = Inr d \<and> d_user d = Some u \<longrightarrow>
        auth J secret now (req\<lparr>authorization := Some tok\<rparr>) =
          Passed (req\<lparr>authorization := Some tok, req_user := Some u\<rparr>))"
proof (intro conjI impI allI)
  assume "\<forall>h. authorization req = Some h \<longrightarrow>
        jwt_verify J h secret now = jwt_verify J' h secret now"
  then show "auth J secret now req = auth J' secret now req"
    by (auto simp: auth_def split: option.splits)
next
  fix req'
  assume "auth J secret now req = Passed req'"
  then show "\<exists>h d u. authorization req = Some h \<and> h \<noteq> [] \<and> jwt_verify J h secret now = Inr d
           \<and> d_user d = Some u \<and> req' = req\<lparr>req_user := Some u\<rparr>"
    by (auto simp: auth_def deny_def split: option.splits if_splits sum.splits)
next
  assume compact: "\<forall>s d. jwt_verify J s secret now = Inr d \<longrightarrow> CHR '' '' \<notin> set s"
  have "CHR '' '' \<in> set (''Bearer '' @ tok)"
    by simp
  with compact have "\<forall>d. jwt_verify J (''Bearer '' @ tok) secret now \<noteq> Inr d"
    by blast
  then obtain e where e: "jwt_verify J (''Bearer '' @ tok) secret now = Inl e"
    by (cases "jwt_verify J (''Bearer '' @ tok) secret now") auto
  have "auth J secret now (req\<lparr>authorization := Some (''Bearer '' @ tok)\<rparr>) =
      Rejected (VerifyFailed e) [''authToken'']
        \<lparr>status = 401, message = ''Access Denied'', payload_data = NoData, success = False\<rparr>"
    using e by (simp add: auth_def deny_def)
  with e show "\<exists>e. jwt_verify J (''Bearer '' @ tok) secret now = Inl e
           \<and> auth J secret now (req\<lparr>authorization := Some (''Bearer '' @ tok)\<rparr>) =
               Rejected (VerifyFailed e) [''authToken'']
                 \<lparr>status = 401, message = ''Access Denied'', payload_data = NoData,
                  success = False\<rparr>"
    by blast
next
  assume "tok \<noteq> [] \<and> jwt_verify J tok secret now = Inr d \<and> d_user d = Some u"
  then show "auth J secret now (req\<lparr>authorization := Some tok\<rparr>) =
          Passed (req\<lparr>authorization := Some tok, req_user := Some u\<rparr>)"
    by (simp add: auth_def)
qed

theorem auth_header_verbatim_witness:
  "jwt_verify compact_jwt (''Bearer '' @ encode_token ada_token) ''secret'' 2000 =
     Inl JsonWebTokenError
   \<and> auth compact_jwt ''secret'' 2000
     \<lparr>authorization = Some (''Bearer '' @ encode_token ada_token), req_user = None\<rparr> =
     Rejected (VerifyFailed JsonWebTokenError) [''authToken'']
       \<lparr>status = 401, message = ''Access Denied'', payload_data = NoData, success = False\<rparr>
   \<and> auth compact_jwt ''secret'' 2000
     \<lparr>authorization = Some (encode_token ada_token), req_user = None\<rparr> =
     Passed \<lparr>authorization = Some (encode_token ada_token), req_user = Some ada_obj\<rparr>"
proof -
  let ?req = "\<lparr>authorization = None, req_user = None\<rparr>"
  let ?d = "\<lparr>d_user = Some ada_obj, d_iat = 1000, d_exp = 87400\<rparr>"
  note inst = auth_header_verbatim
    [of ?req compact_jwt "''secret''" 2000 compact_jwt "encode_token ada_token" ?d ada_obj]
  have ok: "jwt_verify compact_jwt (encode_token ada_token) ''secret'' 2000 = Inr ?d"
    using ada_token_compact
    by (simp add: compact_jwt_def) (simp add: ada_token_def verify_reference)
  have bad: "jwt_verify compact_jwt (''Bearer '' @ encode_token ada_token) ''secret'' 2000 =
      Inl JsonWebTokenError"
    by (simp add: compact_jwt_def)
  have compact:
    "\<forall>s d. jwt_verify compact_jwt s ''secret'' 2000 = Inr d \<longrightarrow> CHR '' '' \<notin> set s"
    by (rule compact_jwt_compact)
  from inst [THEN conjunct2, THEN conjunct2, THEN conjunct1, THEN mp, OF compact]
  obtain e where
    e: "jwt_verify compact_jwt (''Bearer '' @ encode_token ada_token) ''secret'' 2000 = Inl e"
    and r: "auth compact_jwt ''secret'' 2000
        (?req\<lparr>authorization := Some (''Bearer '' @ encode_token ada_token)\<rparr>) =
      Rejected (VerifyFailed e) [''authToken'']
        \<lparr>status = 401, message = ''Access Denied'', payload_data = NoData, success = False\<rparr>"
    by blast
  from e bad have "e = JsonWebTokenError"
    by simp
  with r have c2: "auth compact_jwt ''secret'' 2000
     \<lparr>authorization = Some (''Bearer '' @ encode_token ada_token), req_user = None\<rparr> =
     Rejected (VerifyFailed JsonWebTokenError) [''authToken'']
       \<lparr>status = 401, message = ''Access Denied'', payload_data = NoData, success = False\<rparr>"
    by simp
  from inst [THEN conjunct2, THEN conjunct2, THEN conjunct2] ok encode_nonempty [of ada_token]
  have c3: "auth compact_jwt ''secret'' 2000
     \<lparr>authorization = Some (encode_token ada_token), req_user = None\<rparr> =
     Passed \<lparr>authorization = Some (encode_token ada_token), req_user = Some ada_obj\<rparr>"
    by simp
  from bad c2 c3 show ?thesis
    by (intro conjI)
qed

section \<open>Token round trip\<close>

lemma verify_issue:
  assumes "lossless enc dec"
  shows "jwt_verify (spec_jwt enc dec)
           (jwt_sign (spec_jwt enc dec) \<lparr>sp_user = snapshot\<rparr> secret ttl t0) secret' t =
         (if secret \<noteq> secret' then Inl JsonWebTokenError
          else if t0 + ttl < t then Inl TokenExpiredError
          else Inr \<lparr>d_user = Some snapshot, d_iat = t0, d_exp = t0 + ttl\<rparr>)"
  using assms by (simp add: lossless_def spec_jwt_def issue_def verify_token_def)

lemma issue_nonempty:
  assumes "lossless enc dec"
  shows "jwt_sign (spec_jwt enc dec) payload secret ttl t0 \<noteq> []"
  using assms by (simp add: lossless_def spec_jwt_def issue_def)

lemma loginUser_token:
  assumes "loginUser B J secret t0 users body =
      (users', Responded \<lparr>status = 200, message = m, payload_data = UserToken s tok, success = True\<rparr>)"
  shows "tok = jwt_sign J \<lparr>sp_user = s\<rparr> secret expiresIn_1d t0 \<and> o_password s = None"
  using assms
  by (auto simp: loginUser_def Let_def delete_password_def split: option.splits if_splits)

text \<open>
  C4. With the issuer and the verifier of section 4.2 of the spec, over any lossless
  encoding: the token that \<^verbatim>\<open>loginUser\<close> signs is issued for the user it returns, with an
  expiry of one day (86400 seconds); verifying a token issued at \<open>t0\<close> for a snapshot, with
  the same secret, at a time before \<open>t0\<close> plus one day returns exactly that snapshot, and
  the middleware attaches it to the request; at a time after \<open>t0\<close> plus one day the
  verification fails with the expiry error and the middleware rejects the request. (At the
  very second of the expiry the wording of section 4.2, "exceeds", keeps the token valid;
  the statement leaves that instant out.)
\<close>

theorem token_round_trip:
  assumes "lossless enc dec"
  shows
    "expiresIn_1d = 86400
     \<and> (t < t0 + expiresIn_1d \<longrightarrow>
          jwt_verify (spec_jwt enc dec)
            (jwt_sign (spec_jwt enc dec) \<lparr>sp_user = snapshot\<rparr> secret expiresIn_1d t0) secret t =
            Inr \<lparr>d_user = Some snapshot, d_iat = t0, d_exp = t0 + expiresIn_1d\<rparr>
          \<and> auth (spec_jwt enc dec) secret t
              (req\<lparr>authorization :=
                 Some (jwt_sign (spec_jwt enc dec) \<lparr>sp_user = snapshot\<rparr> secret expiresIn_1d t0)\<rparr>) =
            Passed (req\<lparr>authorization :=
                 Some (jwt_sign (spec_jwt enc dec) \<lparr>sp_user = snapshot\<rparr> secret expiresIn_1d t0),
               req_user := Some snapshot\<rparr>))
     \<and> (t0 + expiresIn_1d < t \<longrightarrow>
          jwt_verify (spec_jwt enc dec)
            (jwt_sign (spec_jwt enc dec) \<lparr>sp_user = snapshot\<rparr> secret expiresIn_1d t0) secret t =
            Inl TokenExpiredError
          \<and> auth (spec_jwt enc dec) secret t
              (req\<lparr>authorization :=
                 Some (jwt_sign (spec_jwt enc dec) \<lparr>sp_user = snapshot\<rparr> secret expiresIn_1d t0)\<rparr>) =
            deny (VerifyFailed TokenExpiredError))
     \<and> (\<forall>users body users' m s tok.
          loginUser B (spec_jwt enc dec) secret t0 users body =
            (users', Responded \<lparr>status = 200, message = m, payload_data = UserToken s tok,
               success = True\<rparr>) \<longrightarrow>
          tok = jwt_sign (spec_jwt enc dec) \<lparr>sp_user = s\<rparr> secret expiresIn_1d t0)"
proof (intro conjI impI allI)
  show "expiresIn_1d = 86400"
    by (simp add: expiresIn_1d_def)
next
  let ?tok = "jwt_sign (spec_jwt enc dec) \<lparr>sp_user = snapshot\<rparr> secret expiresIn_1d t0"
  assume fresh: "t < t0 + expiresIn_1d"
  then show v: "jwt_verify (spec_jwt enc dec) ?tok secret t =
      Inr \<lparr>d_user = Some snapshot, d_iat = t0, d_exp = t0 + expiresIn_1d\<rparr>"
    by (simp add: verify_issue [OF assms])
  from v issue_nonempty [OF assms]
  show "auth (spec_jwt enc dec) secret t (req\<lparr>authorization := Some ?tok\<rparr>) =
      Passed (req\<lparr>authorization := Some ?tok, req_user := Some snapshot\<rparr>)"
    by (simp add: auth_def)
next
  let ?tok = "jwt_sign (spec_jwt enc dec) \<lparr>sp_user = snapshot\<rparr> secret expiresIn_1d t0"
  assume late: "t0 + expiresIn_1d < t"
  then show v: "jwt_verify (spec_jwt enc dec) ?tok secret t = Inl TokenExpiredError"
    by (simp add: verify_issue [OF assms])
  from v issue_nonempty [OF assms]
  show "auth (spec_jwt enc dec) secret t (req\<lparr>authorization := Some ?tok\<rparr>) =
      deny (VerifyFailed TokenExpiredError)"
    by (simp add: auth_def)
next
  fix users body users' m s tok
  assume "loginUser B (spec_jwt enc dec) secret t0 users body =
      (users', Responded \<lparr>status = 200, message = m, payload_data = UserToken s tok,
         success = True\<rparr>)"
  from loginUser_token [OF this]
  show "tok = jwt_sign (spec_jwt enc dec) \<lparr>sp_user = s\<rparr> secret expiresIn_1d t0"
    by simp
qed

theorem token_round_trip_witness:
  "jwt_verify reference_jwt
     (jwt_sign reference_jwt \<lparr>sp_user = john_obj\<rparr> ''secret'' expiresIn_1d 1000) ''secret'' 87399 =
     Inr \<lparr>d_user = Some john_obj, d_iat = 1000, d_exp = 87400\<rparr>
   \<and> auth reference_jwt ''secret'' 87399
       \<lparr>authorization =
          Some (jwt_sign reference_jwt \<lparr>sp_user = john_obj\<rparr> ''secret'' expiresIn_1d 1000),
        req_user = None\<rparr> =
     Passed
       \<lparr>authorization =
          Some (jwt_sign reference_jwt \<lparr>sp_user = john_obj\<rparr> ''secret'' expiresIn_1d 1000),
        req_user = Some john_obj\<rparr>
   \<and> jwt_verify reference_jwt
     (jwt_sign reference_jwt \<lparr>sp_user = john_obj\<rparr> ''secret'' expiresIn_1d 1000) ''secret'' 87401 =
     Inl TokenExpiredError
   \<and> auth reference_jwt ''secret'' 87401
       \<lparr>authorization =
          Some (jwt_sign reference_jwt \<lparr>sp_user = john_obj\<rparr> ''secret'' expiresIn_1d 1000),
        req_user = None\<rparr> =
     deny (VerifyFailed TokenExpiredError)"
proof -
  let ?req = "\<lparr>authorization = None, req_user = None\<rparr>"
  note early = token_round_trip [OF lossless_reference,
      of 87399 1000 john_obj "''secret''" ?req reference_bcrypt, folded reference_jwt_def]
  note late = token_round_trip [OF lossless_reference,
      of 87401 1000 john_obj "''secret''" ?req reference_bcrypt, folded reference_jwt_def]
  have day: "expiresIn_1d = 86400"
    using early by (rule conjunct1)
  have a: "(87399::nat) < 1000 + expiresIn_1d" and b: "1000 + expiresIn_1d < (87401::nat)"
    by (simp_all add: day)
  have s: "1000 + expiresIn_1d = 87400"
    by (simp add: day)
  from early [THEN conjunct2, THEN conjunct1, rule_format, OF a]
    late [THEN conjunct2, THEN conjunct2, THEN conjunct1, rule_format, OF b]
  show ?thesis
    unfolding s by simp
qed

end
